theory Spec2Isabelle
  imports Main "HOL-Library.Word"
begin

section \<open>The LiME layer of volatility/framework/layers/lime.py\<close>

text \<open>
  The module reads a LiME memory image: a sequence of segments, each a fixed header
  (magic, version, start, end, reserved) followed by the bytes of the inclusive address
  range \<open>[start, end]\<close>. \<open>LimeLayer._check_header\<close> decodes and validates one header,
  \<open>LimeLayer._load_segments\<close> walks all headers and stores the segment table, and
  \<open>LimeStacker.stack\<close> probes one header and then constructs the layer.

  Python integers are unbounded, so every number is an \<open>int\<close>. Bytes are 8-bit words.
\<close>

type_synonym byte = "8 word"

subsection \<open>Exceptions\<close>

text \<open>
  Every \<open>raise\<close> of the module is a value. The module raises one class,
  \<open>LimeFormatException\<close>, at five places that differ in their message; each place is a
  constructor, named as the specification names the failure:
  \<^item> \<open>HeaderReadFailed offset\<close>: "Offset 0x.. does not exist within the base layer";
  \<^item> \<open>BadMagic magic offset\<close>: "bad magic 0x.. at file offset 0x..";
  \<^item> \<open>UnsupportedVersion version offset\<close>: "unexpected version .. at file offset 0x..";
  \<^item> \<open>BadRange start end offset\<close>: "bad start/end 0x../0x.. at file offset 0x..";
  \<^item> \<open>EmptyContainer\<close>: "No LiME segments defined in ..".
  \<open>InvalidAddressException\<close> is what the base layer's \<open>read\<close> raises, and
  \<open>StructError\<close> is \<open>struct.error\<close> (a buffer of the wrong size given to \<open>unpack\<close>);
  neither is a \<open>LimeFormatException\<close>.
\<close>

datatype exn =
    InvalidAddressException
  | StructError
  | HeaderReadFailed int
  | BadMagic int int
  | UnsupportedVersion int int
  | BadRange int int int
  | EmptyContainer

fun is_LimeFormatException :: "exn \<Rightarrow> bool" where
  "is_LimeFormatException InvalidAddressException = False"
| "is_LimeFormatException StructError = False"
| "is_LimeFormatException (HeaderReadFailed offset) = True"
| "is_LimeFormatException (BadMagic magic offset) = True"
| "is_LimeFormatException (UnsupportedVersion version offset) = True"
| "is_LimeFormatException (BadRange start end' offset) = True"
| "is_LimeFormatException EmptyContainer = True"

subsection \<open>The header structure: \<open>struct.Struct('<IIQQQ')\<close>\<close>

text \<open>
  With the prefix \<open><\<close> the fields are little-endian, of standard size and without
  padding: \<open>I\<close> is an unsigned integer of 4 bytes and \<open>Q\<close> one of 8 bytes.
\<close>

datatype fmt_code = Fmt_I | Fmt_Q

fun fmt_size :: "fmt_code \<Rightarrow> nat" where
  "fmt_size Fmt_I = 4"
| "fmt_size Fmt_Q = 8"

definition calcsize :: "fmt_code list \<Rightarrow> nat" where
  "calcsize fmt = sum_list (map fmt_size fmt)"

text \<open>\<open>int.from_bytes(bs, 'little')\<close>: the unsigned value of a little-endian field.\<close>

fun le_int :: "byte list \<Rightarrow> int" where
  "le_int [] = 0"
| "le_int (b # bs) = uint b + 256 * le_int bs"

fun unpack_fields :: "fmt_code list \<Rightarrow> byte list \<Rightarrow> int list" where
  "unpack_fields [] bs = []"
| "unpack_fields (c # cs) bs =
     le_int (take (fmt_size c) bs) # unpack_fields cs (drop (fmt_size c) bs)"

text \<open>\<open>Struct.unpack\<close> raises \<open>struct.error\<close> unless the buffer has exactly \<open>size\<close> bytes.\<close>

definition unpack :: "fmt_code list \<Rightarrow> byte list \<Rightarrow> exn + int list" where
  "unpack fmt bs =
     (if length bs \<noteq> calcsize fmt then Inl StructError else Inr (unpack_fields fmt bs))"

definition MAGIC :: int where
  "MAGIC = 0x4c694d45"

definition VERSION :: int where
  "VERSION = 1"

text \<open>Magic[4], Version[4], Start[8], End[8], Reserved[8].\<close>

definition header_struct :: "fmt_code list" where
  "header_struct = [Fmt_I, Fmt_I, Fmt_Q, Fmt_Q, Fmt_Q]"

definition header_size :: int where
  "header_size = int (calcsize header_struct)"

subsection \<open>The base layer\<close>

text \<open>
  The layer below is an object of another module (\<open>DataLayerInterface\<close>); the module uses
  its attribute \<open>maximum_address\<close> and its method \<open>read\<close>. It is a parameter here: the
  bytes it holds and the value of \<open>maximum_address\<close>, with no relation assumed between
  the two (implementations report the number of bytes, or that number minus one).
\<close>

record data_layer =
  layer_data :: "byte list"
  maximum_address :: int

text \<open>
  Modelled from the spec: the method \<open>read\<close> of the base layer, which is not part of this
  module. The byte source "exposes \<open>read(offset, length) -> bytes | error\<close>" and "must
  signal a distinguishable out of range error when the requested span exceeds available
  data".
\<close>

definition read :: "data_layer \<Rightarrow> int \<Rightarrow> int \<Rightarrow> exn + byte list" where
  "read base_layer offset len =
     (if 0 \<le> offset \<and> 0 \<le> len \<and> offset + len \<le> int (length (layer_data base_layer))
      then Inr (take (nat len) (drop (nat offset) (layer_data base_layer)))
      else Inl InvalidAddressException)"

subsection \<open>\<open>LimeLayer._check_header\<close>\<close>

text \<open>
  The method reads \<open>header_size\<close> bytes at \<open>offset\<close>; an \<open>InvalidAddressException\<close> of
  the read becomes a \<open>LimeFormatException\<close>, any other exception passes through. It
  unpacks the five fields and compares the magic, then the version; \<open>start\<close> and \<open>end\<close>
  are returned as they are. The last case is the tuple assignment receiving other than
  five values, which \<open>unpack\<close> of five fields never returns.
\<close>

definition check_header :: "data_layer \<Rightarrow> int \<Rightarrow> exn + (int \<times> int)" where
  "check_header base_layer offset =
     (case read base_layer offset header_size of
        Inl InvalidAddressException \<Rightarrow> Inl (HeaderReadFailed offset)
      | Inl e \<Rightarrow> Inl e
      | Inr header_data \<Rightarrow>
          (case unpack header_struct header_data of
             Inl e \<Rightarrow> Inl e
           | Inr [magic, version, start, end', reserved] \<Rightarrow>
               if magic \<noteq> MAGIC then Inl (BadMagic magic offset)
               else if version \<noteq> VERSION then Inl (UnsupportedVersion version offset)
               else Inr (start, end')
           | Inr _ \<Rightarrow> Inl StructError))"

subsection \<open>\<open>LimeLayer._load_segments\<close>\<close>

text \<open>A segment is the tuple \<open>(start, offset + header_size, segment_length)\<close>.\<close>

type_synonym segment = "int \<times> int \<times> int"

text \<open>
  The \<open>while\<close> loop, with its local variables \<open>maxaddr\<close>, \<open>offset\<close> and \<open>segments\<close> as
  arguments. It ends: every pass adds \<open>header_size + segment_length\<close>, which is positive,
  to \<open>offset\<close>.
\<close>

function load_loop :: "data_layer \<Rightarrow> int \<Rightarrow> int \<Rightarrow> segment list \<Rightarrow> exn + segment list" where
  "load_loop base_layer maxaddr offset segments =
     (if offset < maximum_address base_layer then
        (case check_header base_layer offset of
           Inl e \<Rightarrow> Inl e
         | Inr (start, end') \<Rightarrow>
             if start < maxaddr \<or> end' < start then Inl (BadRange start end' offset)
             else
               let segment_length = end' - start + 1
               in load_loop base_layer end' (offset + header_size + segment_length)
                    (segments @ [(start, offset + header_size, segment_length)]))
      else Inr segments)"
  by pat_completeness auto
termination
  by (relation "measure (\<lambda>(base_layer, maxaddr, offset, segments).
        nat (maximum_address base_layer - offset))")
     (auto simp: header_size_def calcsize_def header_struct_def)

text \<open>
  The layer object: its name, the base layer that \<open>self._context.memory[self._base_layer]\<close>
  yields, and the attribute \<open>self._segments\<close>.
\<close>

record lime_layer =
  layer_name :: string
  self_base_layer :: data_layer
  self_segments :: "segment list"

text \<open>
  The object as the constructor of the superclass (another module) leaves it, before
  \<open>_load_segments\<close> runs: no segment yet.
\<close>

definition new_layer :: "string \<Rightarrow> data_layer \<Rightarrow> lime_layer" where
  "new_layer name base_layer =
     \<lparr>layer_name = name, self_base_layer = base_layer, self_segments = []\<rparr>"

text \<open>
  The method returns its outcome (the exception raised, or \<open>None\<close> of a normal return)
  together with the object as the call leaves it.
\<close>

definition load_segments :: "lime_layer \<Rightarrow> (exn + unit) \<times> lime_layer" where
  "load_segments self =
     (case load_loop (self_base_layer self) 0 0 [] of
        Inl e \<Rightarrow> (Inl e, self)
      | Inr segments \<Rightarrow>
          if length segments = 0 then (Inl EmptyContainer, self)
          else (Inr (), self\<lparr>self_segments := segments\<rparr>))"

subsection \<open>\<open>LimeLayer.__init__\<close> and \<open>LimeStacker.stack\<close>\<close>

text \<open>
  The constructor: the superclass creates the object, then \<open>_load_segments\<close> runs. An
  exception leaves no object.
\<close>

definition LimeLayer_init :: "string \<Rightarrow> data_layer \<Rightarrow> exn + lime_layer" where
  "LimeLayer_init name base_layer =
     (case load_segments (new_layer name base_layer) of
        (Inl e, self) \<Rightarrow> Inl e
      | (Inr u, self) \<Rightarrow> Inr self)"

text \<open>
  \<open>stack\<close> takes the base layer that \<open>context.memory[layer_name]\<close> yields and the name
  that \<open>context.memory.free_layer_name\<close> hands out; the entry it writes into
  \<open>context.config\<close> is what makes the new layer find that base layer. The result is
  \<open>Inr None\<close> for \<open>return None\<close>, \<open>Inr (Some layer)\<close> for the constructed layer, and
  \<open>Inl e\<close> for an exception that leaves the method. The \<open>except\<close> clause catches
  \<open>LimeFormatException\<close> only.
\<close>

definition stack :: "data_layer \<Rightarrow> string \<Rightarrow> exn + lime_layer option" where
  "stack base_layer new_name =
     (case check_header base_layer 0 of
        Inl e \<Rightarrow> if is_LimeFormatException e then Inr None else Inl e
      | Inr header \<Rightarrow>
          (case LimeLayer_init new_name base_layer of
             Inl e \<Rightarrow> Inl e
           | Inr layer \<Rightarrow> Inr (Some layer)))"

subsection \<open>Sources built from headers and payloads\<close>

text \<open>
  To speak of a source that consists of given segments, the bytes are built from the
  fields: \<open>le_bytes n v\<close> are the \<open>n\<close> little-endian bytes of \<open>v\<close>, and \<open>pack_header\<close>
  is \<open>struct.pack('<IIQQQ', magic, version, start, end, reserved)\<close>. A field of 4 bytes
  holds the values of \<open>u32\<close>, one of 8 bytes those of \<open>u64\<close>.
\<close>

definition u32 :: "int \<Rightarrow> bool" where
  "u32 v \<longleftrightarrow> 0 \<le> v \<and> v < 2 ^ 32"

definition u64 :: "int \<Rightarrow> bool" where
  "u64 v \<longleftrightarrow> 0 \<le> v \<and> v < 2 ^ 64"

fun le_bytes :: "nat \<Rightarrow> int \<Rightarrow> byte list" where
  "le_bytes 0 v = []"
| "le_bytes (Suc n) v = word_of_int (v mod 256) # le_bytes n (v div 256)"

definition pack_header :: "int \<Rightarrow> int \<Rightarrow> int \<Rightarrow> int \<Rightarrow> int \<Rightarrow> byte list" where
  "pack_header magic version start end' reserved =
     le_bytes 4 magic @ le_bytes 4 version @ le_bytes 8 start @ le_bytes 8 end' @
     le_bytes 8 reserved"

text \<open>
  A chunk is what one segment of a file is made of: the fields \<open>start\<close>, \<open>end\<close> and
  \<open>reserved\<close> of its header, and its payload. \<open>pack_chunks\<close> is the file: every header,
  with the magic and the version of the format, followed by its payload.
\<close>

type_synonym chunk = "int \<times> int \<times> int \<times> byte list"

fun chunk_start :: "chunk \<Rightarrow> int" where
  "chunk_start (start, end', reserved, payload) = start"

fun chunk_end :: "chunk \<Rightarrow> int" where
  "chunk_end (start, end', reserved, payload) = end'"

fun pack_chunks :: "chunk list \<Rightarrow> byte list" where
  "pack_chunks [] = []"
| "pack_chunks ((start, end', reserved, payload) # cs) =
     pack_header MAGIC VERSION start end' reserved @ payload @ pack_chunks cs"

text \<open>
  A well-formed source, in the words of the specification: every header holds valid
  fields with \<open>start \<le> end\<close> and is followed by exactly \<open>end - start + 1\<close> bytes of
  payload, and the ranges are strictly increasing and do not overlap (each start is
  greater than the end before it).
\<close>

fun chunk_ok :: "chunk \<Rightarrow> bool" where
  "chunk_ok (start, end', reserved, payload) =
     (u64 start \<and> u64 end' \<and> u64 reserved \<and> start \<le> end' \<and>
      int (length payload) = end' - start + 1)"

fun ranges_increasing :: "chunk list \<Rightarrow> bool" where
  "ranges_increasing [] = True"
| "ranges_increasing [c] = True"
| "ranges_increasing (c # c' # cs) =
     (chunk_end c < chunk_start c' \<and> ranges_increasing (c' # cs))"

definition well_formed_chunks :: "chunk list \<Rightarrow> bool" where
  "well_formed_chunks cs \<longleftrightarrow> list_all chunk_ok cs \<and> ranges_increasing cs"

text \<open>
  The segment expected for the \<open>i\<close>-th chunk: the start of its header, the position of
  its header in the file plus the 32 bytes of the header, and \<open>end - start + 1\<close>.
\<close>

definition header_offset :: "chunk list \<Rightarrow> nat \<Rightarrow> int" where
  "header_offset cs i = int (length (pack_chunks (take i cs)))"

definition expected_segment :: "chunk list \<Rightarrow> nat \<Rightarrow> segment" where
  "expected_segment cs i =
     (chunk_start (cs ! i), header_offset cs i + 32,
      chunk_end (cs ! i) - chunk_start (cs ! i) + 1)"

text \<open>
  For the proofs: the chunks that pass the checks of the loop when it starts with a given
  \<open>maxaddr\<close> (a start equal to the end before it passes), the segments the loop appends
  for them from a given offset, and the value of \<open>maxaddr\<close> after them; and the 32 bytes
  that \<open>_check_header\<close> reads at an offset.
\<close>

fun accepted_chain :: "int \<Rightarrow> chunk list \<Rightarrow> bool" where
  "accepted_chain maxaddr [] = True"
| "accepted_chain maxaddr ((start, end', reserved, payload) # cs) =
     (u64 start \<and> u64 end' \<and> maxaddr \<le> start \<and> start \<le> end' \<and>
      int (length payload) = end' - start + 1 \<and> accepted_chain end' cs)"

fun table_from :: "int \<Rightarrow> chunk list \<Rightarrow> segment list" where
  "table_from offset [] = []"
| "table_from offset ((start, end', reserved, payload) # cs) =
     (start, offset + 32, end' - start + 1) #
     table_from (offset + 32 + int (length payload)) cs"

fun last_end :: "int \<Rightarrow> chunk list \<Rightarrow> int" where
  "last_end maxaddr [] = maxaddr"
| "last_end maxaddr ((start, end', reserved, payload) # cs) = last_end end' cs"

definition header_at :: "data_layer \<Rightarrow> int \<Rightarrow> byte list" where
  "header_at base_layer offset = take 32 (drop (nat offset) (layer_data base_layer))"

subsection \<open>Example files\<close>

text \<open>
  \<open>one_segment\<close>: one header for \<open>[0, 255]\<close> and its 256 bytes.
  \<open>touching_segments\<close>: a header for \<open>[0, 255]\<close> at offset 0 and one for \<open>[255, 511]\<close>
  behind the first payload, each with its payload.
  \<open>overlapping_segments\<close>: a header for \<open>[0, 255]\<close> with its payload, then one for
  \<open>[100, 511]\<close>.
\<close>

definition one_segment :: "byte list" where
  "one_segment = pack_chunks [(0, 255, 0, replicate 256 0)]"

definition touching_segments :: "byte list" where
  "touching_segments =
     pack_chunks [(0, 255, 0, replicate 256 0), (255, 511, 0, replicate 257 0)]"

definition overlapping_segments :: "byte list" where
  "overlapping_segments =
     pack_chunks [(0, 255, 0, replicate 256 0)] @ pack_header MAGIC VERSION 100 511 0 @
     replicate 412 0"

section \<open>Facts about the model\<close>

subsection \<open>Reading and checking one header\<close>

lemma header_size_eq: "header_size = 32"
  by (simp add: header_size_def calcsize_def header_struct_def)

lemma unpack_header_struct:
  "length bs = 32 \<Longrightarrow>
   unpack header_struct bs =
     Inr [le_int (take 4 bs), le_int (take 4 (drop 4 bs)), le_int (take 8 (drop 8 bs)),
          le_int (take 8 (drop 16 bs)), le_int (take 8 (drop 24 bs))]"
  by (simp add: unpack_def header_struct_def calcsize_def)

lemma read_header:
  "read bl offset header_size =
     (if 0 \<le> offset \<and> offset + 32 \<le> int (length (layer_data bl))
      then Inr (header_at bl offset) else Inl InvalidAddressException)"
  by (simp add: read_def header_size_eq header_at_def)

lemma length_header_at:
  "0 \<le> offset \<Longrightarrow> offset + 32 \<le> int (length (layer_data bl)) \<Longrightarrow>
   length (header_at bl offset) = 32"
  by (simp add: header_at_def)

lemma check_header_short:
  "\<not> (0 \<le> offset \<and> offset + 32 \<le> int (length (layer_data bl))) \<Longrightarrow>
   check_header bl offset = Inl (HeaderReadFailed offset)"
  by (auto simp: check_header_def read_header)

lemma check_header_full:
  assumes "0 \<le> offset" and "offset + 32 \<le> int (length (layer_data bl))"
  shows "check_header bl offset =
     (let h = header_at bl offset; magic = le_int (take 4 h); version = le_int (take 4 (drop 4 h))
      in if magic \<noteq> MAGIC then Inl (BadMagic magic offset)
         else if version \<noteq> VERSION then Inl (UnsupportedVersion version offset)
         else Inr (le_int (take 8 (drop 8 h)), le_int (take 8 (drop 16 h))))"
  using assms
  by (simp add: check_header_def read_header unpack_header_struct length_header_at Let_def)

lemma check_header_exn:
  "check_header bl offset = Inl e \<Longrightarrow> is_LimeFormatException e"
  by (cases "0 \<le> offset \<and> offset + 32 \<le> int (length (layer_data bl))")
     (auto simp: check_header_short check_header_full Let_def split: if_splits)

subsection \<open>One pass of the loop\<close>

declare load_loop.simps [simp del]

lemma load_loop_exit:
  "\<not> offset < maximum_address bl \<Longrightarrow> load_loop bl maxaddr offset segs = Inr segs"
  by (subst load_loop.simps) simp

lemma load_loop_raise:
  "offset < maximum_address bl \<Longrightarrow> check_header bl offset = Inl e \<Longrightarrow>
   load_loop bl maxaddr offset segs = Inl e"
  by (subst load_loop.simps) simp

lemma load_loop_bad_range:
  "offset < maximum_address bl \<Longrightarrow> check_header bl offset = Inr (start, end') \<Longrightarrow>
   start < maxaddr \<or> end' < start \<Longrightarrow>
   load_loop bl maxaddr offset segs = Inl (BadRange start end' offset)"
  by (subst load_loop.simps) simp

lemma load_loop_step:
  "offset < maximum_address bl \<Longrightarrow> check_header bl offset = Inr (start, end') \<Longrightarrow>
   maxaddr \<le> start \<Longrightarrow> start \<le> end' \<Longrightarrow>
   load_loop bl maxaddr offset segs =
     load_loop bl end' (offset + 32 + (end' - start + 1))
       (segs @ [(start, offset + 32, end' - start + 1)])"
  by (subst load_loop.simps) (simp add: header_size_eq Let_def)

subsection \<open>Packing and unpacking fields\<close>

lemma length_le_bytes [simp]: "length (le_bytes n v) = n"
  by (induction n arbitrary: v) auto

lemma le_int_le_bytes: "0 \<le> v \<Longrightarrow> v < 256 ^ n \<Longrightarrow> le_int (le_bytes n v) = v"
proof (induction n arbitrary: v)
  case 0
  then show ?case by simp
next
  case (Suc n)
  have b: "uint (word_of_int (v mod 256) :: byte) = v mod 256"
    by (simp add: uint_word_of_int)
  have "v div 256 < 256 ^ n"
    using Suc.prems by (simp add: div_less_iff_less_mult mult.commute)
  moreover have "0 \<le> v div 256" using Suc.prems by simp
  ultimately have "le_int (le_bytes n (v div 256)) = v div 256"
    by (rule Suc.IH[rotated])
  then show ?case using b by simp
qed

lemma length_pack_header [simp]: "length (pack_header m v s e r) = 32"
  by (simp add: pack_header_def)

lemma le_int_u32: "u32 v \<Longrightarrow> le_int (le_bytes 4 v) = v"
  by (rule le_int_le_bytes) (simp_all add: u32_def)

lemma le_int_u64: "u64 v \<Longrightarrow> le_int (le_bytes 8 v) = v"
  by (rule le_int_le_bytes) (simp_all add: u64_def)

lemma header_at_packed:
  "layer_data bl = pre @ pack_header m v s e r @ rest \<Longrightarrow>
   header_at bl (int (length pre)) = pack_header m v s e r"
  by (simp add: header_at_def)

lemma pack_header_fields:
  assumes "u32 m" "u32 v" "u64 s" "u64 e"
  shows "le_int (take 4 (pack_header m v s e r)) = m"
    and "le_int (take 4 (drop 4 (pack_header m v s e r))) = v"
    and "le_int (take 8 (drop 8 (pack_header m v s e r))) = s"
    and "le_int (take 8 (drop 16 (pack_header m v s e r))) = e"
  using assms by (simp_all add: pack_header_def le_int_u32 le_int_u64)

lemma check_header_packed:
  assumes "layer_data bl = pre @ pack_header m v s e r @ rest"
    and "u32 m" "u32 v" "u64 s" "u64 e"
  shows "check_header bl (int (length pre)) =
     (if m \<noteq> MAGIC then Inl (BadMagic m (int (length pre)))
      else if v \<noteq> VERSION then Inl (UnsupportedVersion v (int (length pre)))
      else Inr (s, e))"
proof -
  have len: "int (length pre) + 32 \<le> int (length (layer_data bl))"
    using assms(1) by simp
  note f = pack_header_fields[OF assms(2-5), of r]
  show ?thesis
    unfolding check_header_full[OF of_nat_0_le_iff len] header_at_packed[OF assms(1)] Let_def f
    by simp
qed

lemma u32_MAGIC [simp]: "u32 MAGIC"
  by (simp add: u32_def MAGIC_def)

lemma u32_VERSION [simp]: "u32 VERSION"
  by (simp add: u32_def VERSION_def)

subsection \<open>The loop over packed chunks\<close>

lemma load_loop_chunks:
  assumes "layer_data bl = pre @ pack_chunks cs @ rest"
    and "accepted_chain maxaddr cs"
    and "int (length pre) + int (length (pack_chunks cs)) \<le> maximum_address bl + 32"
  shows "load_loop bl maxaddr (int (length pre)) acc =
         load_loop bl (last_end maxaddr cs) (int (length pre) + int (length (pack_chunks cs)))
           (acc @ table_from (int (length pre)) cs)"
  using assms
proof (induction cs arbitrary: pre maxaddr acc)
  case Nil
  then show ?case by simp
next
  case (Cons c cs)
  obtain s e r p where c: "c = (s, e, r, p)" by (cases c) auto
  let ?h = "pack_header MAGIC VERSION s e r"
  let ?pre = "pre @ ?h @ p"
  from Cons.prems(2) c have ok: "u64 s" "u64 e" "maxaddr \<le> s" "s \<le> e"
    and lenp: "int (length p) = e - s + 1" and chain: "accepted_chain e cs"
    by simp_all
  have data: "layer_data bl = pre @ ?h @ (p @ pack_chunks cs @ rest)"
    using Cons.prems(1) c by simp
  have hdr: "check_header bl (int (length pre)) = Inr (s, e)"
    using check_header_packed[OF data u32_MAGIC u32_VERSION ok(1,2)] by simp
  have enter: "int (length pre) < maximum_address bl"
    using Cons.prems(3) c lenp ok(4) by simp
  have step: "load_loop bl maxaddr (int (length pre)) acc =
      load_loop bl e (int (length pre) + 32 + (e - s + 1))
        (acc @ [(s, int (length pre) + 32, e - s + 1)])"
    by (rule load_loop_step[OF enter hdr ok(3,4)])
  have off: "int (length ?pre) = int (length pre) + 32 + (e - s + 1)"
    using lenp by simp
  have data': "layer_data bl = ?pre @ pack_chunks cs @ rest"
    using data by simp
  have bound': "int (length ?pre) + int (length (pack_chunks cs)) \<le> maximum_address bl + 32"
    using Cons.prems(3) c by simp
  have ih: "load_loop bl e (int (length ?pre)) (acc @ [(s, int (length pre) + 32, e - s + 1)]) =
      load_loop bl (last_end e cs) (int (length ?pre) + int (length (pack_chunks cs)))
        ((acc @ [(s, int (length pre) + 32, e - s + 1)]) @ table_from (int (length ?pre)) cs)"
    by (rule Cons.IH[OF data' chain bound'])
  have tab: "table_from (int (length pre)) (c # cs) =
      (s, int (length pre) + 32, e - s + 1) # table_from (int (length ?pre)) cs"
    using c lenp by (simp add: ac_simps)
  have len: "int (length pre) + int (length (pack_chunks (c # cs))) =
      int (length ?pre) + int (length (pack_chunks cs))"
    using c by simp
  show ?case
    unfolding step tab len using ih unfolding off c by simp
qed

lemma length_table_from [simp]: "length (table_from offset cs) = length cs"
  by (induction cs arbitrary: offset) auto

lemma nth_table_from:
  "i < length cs \<Longrightarrow>
   table_from offset cs ! i =
     (chunk_start (cs ! i), offset + header_offset cs i + 32,
      chunk_end (cs ! i) - chunk_start (cs ! i) + 1)"
proof (induction cs arbitrary: offset i)
  case Nil
  then show ?case by simp
next
  case (Cons c cs)
  obtain s e r p where c: "c = (s, e, r, p)" by (cases c) auto
  show ?case
  proof (cases i)
    case 0
    then show ?thesis by (simp add: c header_offset_def)
  next
    case (Suc j)
    with Cons.prems have "j < length cs" by simp
    from Cons.IH[OF this, of "offset + 32 + int (length p)"]
    show ?thesis by (simp add: c Suc header_offset_def)
  qed
qed

lemma table_from_expected: "table_from 0 cs = map (expected_segment cs) [0..<length cs]"
  by (rule nth_equalityI) (simp_all add: nth_table_from expected_segment_def)

lemma accepted_chain_increasing:
  "list_all chunk_ok cs \<Longrightarrow> ranges_increasing cs \<Longrightarrow>
   (cs \<noteq> [] \<Longrightarrow> maxaddr \<le> chunk_start (hd cs)) \<Longrightarrow> accepted_chain maxaddr cs"
proof (induction cs arbitrary: maxaddr)
  case Nil
  then show ?case by simp
next
  case (Cons c cs)
  obtain s e r p where c: "c = (s, e, r, p)" by (cases c) auto
  have "accepted_chain e cs"
  proof (rule Cons.IH)
    show "list_all chunk_ok cs" using Cons.prems(1) by simp
    show "ranges_increasing cs" using Cons.prems(2) by (cases cs) simp_all
    show "e \<le> chunk_start (hd cs)" if "cs \<noteq> []"
      using that Cons.prems(2) c by (cases cs) simp_all
  qed
  then show ?case using Cons.prems(1,3) c by simp
qed

lemma well_formed_accepted: "well_formed_chunks cs \<Longrightarrow> accepted_chain 0 cs"
  unfolding well_formed_chunks_def
proof (erule conjE, rule accepted_chain_increasing)
  assume ok: "list_all chunk_ok cs" and "cs \<noteq> []"
  then have "chunk_ok (hd cs)" by (cases cs) simp_all
  then show "0 \<le> chunk_start (hd cs)" by (cases "hd cs") (simp add: u64_def)
qed

lemma last_end_last: "cs \<noteq> [] \<Longrightarrow> last_end maxaddr cs = chunk_end (last cs)"
  by (induction maxaddr cs rule: last_end.induct) auto

lemma load_segments_raise:
  "load_loop (self_base_layer self) 0 0 [] = Inl e \<Longrightarrow> load_segments self = (Inl e, self)"
  by (simp add: load_segments_def)

lemma load_segments_table:
  "load_loop (self_base_layer self) 0 0 [] = Inr segs \<Longrightarrow> segs \<noteq> [] \<Longrightarrow>
   load_segments self = (Inr (), self\<lparr>self_segments := segs\<rparr>)"
  by (simp add: load_segments_def)

lemma load_segments_empty:
  "load_loop (self_base_layer self) 0 0 [] = Inr [] \<Longrightarrow> load_segments self = (Inl EmptyContainer, self)"
  by (simp add: load_segments_def)

lemma load_loop_all_chunks:
  assumes "layer_data bl = pack_chunks cs"
    and "accepted_chain 0 cs"
    and "int (length (layer_data bl)) - 1 \<le> maximum_address bl"
    and "maximum_address bl \<le> int (length (layer_data bl))"
  shows "load_loop bl 0 0 [] = Inr (table_from 0 cs)"
proof -
  have d: "layer_data bl = [] @ pack_chunks cs @ []" using assms(1) by simp
  have b: "int (length ([]::byte list)) + int (length (pack_chunks cs)) \<le> maximum_address bl + 32"
    using assms(1,3) by simp
  have "load_loop bl 0 0 [] =
        load_loop bl (last_end 0 cs) (int (length (pack_chunks cs))) (table_from 0 cs)"
    using load_loop_chunks[OF d assms(2) b, of "[]"] by simp
  also have "\<dots> = Inr (table_from 0 cs)"
    using assms(1,4) by (simp add: load_loop_exit)
  finally show ?thesis .
qed

lemma load_loop_at_header:
  assumes "layer_data bl = pack_chunks cs @ pack_header m v s e r @ rest"
    and "accepted_chain 0 cs"
    and "u32 m" "u32 v" "u64 s" "u64 e"
    and "int (length (layer_data bl)) - 1 \<le> maximum_address bl"
  shows "load_loop bl 0 0 [] =
     (let offset = int (length (pack_chunks cs)) in
      if m \<noteq> MAGIC then Inl (BadMagic m offset)
      else if v \<noteq> VERSION then Inl (UnsupportedVersion v offset)
      else if s < last_end 0 cs \<or> e < s then Inl (BadRange s e offset)
      else load_loop bl e (offset + 32 + (e - s + 1))
             (table_from 0 cs @ [(s, offset + 32, e - s + 1)]))"
proof -
  let ?off = "int (length (pack_chunks cs))"
  have d: "layer_data bl = [] @ pack_chunks cs @ (pack_header m v s e r @ rest)"
    using assms(1) by simp
  have enter: "?off < maximum_address bl"
    using assms(1,7) by simp
  then have b: "int (length ([]::byte list)) + ?off \<le> maximum_address bl + 32"
    by simp
  have pre: "load_loop bl 0 0 [] = load_loop bl (last_end 0 cs) ?off (table_from 0 cs)"
    using load_loop_chunks[OF d assms(2) b, of "[]"] by simp
  have hdr: "check_header bl ?off =
     (if m \<noteq> MAGIC then Inl (BadMagic m ?off)
      else if v \<noteq> VERSION then Inl (UnsupportedVersion v ?off)
      else Inr (s, e))"
    by (rule check_header_packed[OF assms(1) assms(3-6)])
  show ?thesis
  proof (cases "m \<noteq> MAGIC \<or> v \<noteq> VERSION")
    case True
    then show ?thesis
      unfolding pre Let_def using hdr enter by (auto simp: load_loop_raise)
  next
    case False
    then have h: "check_header bl ?off = Inr (s, e)" using hdr by simp
    show ?thesis
    proof (cases "s < last_end 0 cs \<or> e < s")
      case True
      then show ?thesis
        unfolding pre Let_def using False load_loop_bad_range[OF enter h True] by simp
    next
      case bad: False
      then have "last_end 0 cs \<le> s" "s \<le> e" by simp_all
      from load_loop_step[OF enter h this] show ?thesis
        unfolding pre Let_def using False bad by simp
    qed
  qed
qed

lemma load_loop_BadRange_offset:
  "load_loop bl maxaddr offset segs = Inl (BadRange s e off) \<Longrightarrow> offset \<le> off"
proof (induction bl maxaddr offset segs rule: load_loop.induct)
  case (1 bl maxaddr offset segs)
  show ?case
  proof (cases "offset < maximum_address bl")
    case False
    then show ?thesis using "1.prems" by (simp add: load_loop_exit)
  next
    case enter: True
    show ?thesis
    proof (cases "check_header bl offset")
      case (Inl x)
      then show ?thesis using "1.prems" enter
        by (cases "0 \<le> offset \<and> offset + 32 \<le> int (length (layer_data bl))")
           (auto simp: load_loop_raise check_header_short check_header_full Let_def split: if_splits)
    next
      case (Inr h)
      obtain s' e' where h: "h = (s', e')" by (cases h) auto
      show ?thesis
      proof (cases "s' < maxaddr \<or> e' < s'")
        case True
        then show ?thesis
          using "1.prems" load_loop_bad_range[OF enter Inr[unfolded h] True] by simp
      next
        case False
        then have ok: "maxaddr \<le> s'" "s' \<le> e'" by simp_all
        have "load_loop bl e' (offset + header_size + (e' - s' + 1))
                (segs @ [(s', offset + header_size, e' - s' + 1)]) = Inl (BadRange s e off)"
          using "1.prems" load_loop_step[OF enter Inr[unfolded h] ok] by (simp add: header_size_eq)
        from "1.IH"[OF enter Inr[unfolded h] refl False refl this]
        show ?thesis using ok by (simp add: header_size_eq)
      qed
    qed
  qed
qed

lemma load_segments_Inl_cases:
  "fst (load_segments self) = Inl e \<Longrightarrow> e \<noteq> EmptyContainer \<Longrightarrow>
   load_loop (self_base_layer self) 0 0 [] = Inl e"
  by (auto simp: load_segments_def split: sum.splits if_splits)

subsection \<open>The header at offset 0 and the stacker\<close>

lemma header_at_0: "header_at bl 0 = take 32 (layer_data bl)"
  by (simp add: header_at_def)

lemma check_header_0:
  "32 \<le> length (layer_data bl) \<Longrightarrow>
   check_header bl 0 =
     (if le_int (take 4 (layer_data bl)) \<noteq> MAGIC
      then Inl (BadMagic (le_int (take 4 (layer_data bl))) 0)
      else if le_int (take 4 (drop 4 (layer_data bl))) \<noteq> VERSION
      then Inl (UnsupportedVersion (le_int (take 4 (drop 4 (layer_data bl)))) 0)
      else Inr (le_int (take 8 (drop 8 (layer_data bl))),
                le_int (take 8 (drop 16 (layer_data bl)))))"
  by (simp add: check_header_full header_at_0 Let_def drop_take)

lemma check_header_0_short:
  "length (layer_data bl) < 32 \<Longrightarrow> check_header bl 0 = Inl (HeaderReadFailed 0)"
  by (simp add: check_header_short)

lemma stack_rejects: "check_header bl 0 = Inl e \<Longrightarrow> stack bl nm = Inr None"
  by (auto simp: stack_def dest: check_header_exn)

text \<open>The two example files with a second header, run through the loop.\<close>

lemma load_loop_touching:
  "m = 576 \<or> m = 577 \<Longrightarrow>
   load_loop \<lparr>layer_data = touching_segments, maximum_address = m\<rparr> 0 0 [] =
     Inr [(0, 32, 256), (255, 320, 257)]"
proof -
  assume m: "m = 576 \<or> m = 577"
  let ?cs = "[(0, 255, 0, replicate 256 0), (255, 511, 0, replicate 257 0)] :: chunk list"
  let ?bl = "\<lparr>layer_data = touching_segments, maximum_address = m\<rparr>"
  have ch: "accepted_chain 0 ?cs"
    by (simp add: u64_def)
  have d: "layer_data ?bl = pack_chunks ?cs"
    by (simp add: touching_segments_def)
  have len: "length touching_segments = 577"
    by (simp add: touching_segments_def)
  have "load_loop ?bl 0 0 [] = Inr (table_from 0 ?cs)"
    using m by (intro load_loop_all_chunks[OF d ch]) (auto simp: len)
  then show ?thesis by simp
qed

lemma load_loop_one_segment:
  "m = 287 \<or> m = 288 \<Longrightarrow>
   load_loop \<lparr>layer_data = one_segment, maximum_address = m\<rparr> 0 0 [] = Inr [(0, 32, 256)]"
proof -
  assume m: "m = 287 \<or> m = 288"
  let ?cs = "[(0, 255, 0, replicate 256 0)] :: chunk list"
  let ?bl = "\<lparr>layer_data = one_segment, maximum_address = m\<rparr>"
  have ch: "accepted_chain 0 ?cs"
    by (simp add: u64_def)
  have d: "layer_data ?bl = pack_chunks ?cs"
    by (simp add: one_segment_def)
  have len: "length one_segment = 288"
    by (simp add: one_segment_def)
  have "load_loop ?bl 0 0 [] = Inr (table_from 0 ?cs)"
    using m by (intro load_loop_all_chunks[OF d ch]) (auto simp: len)
  then show ?thesis by simp
qed

lemma load_loop_overlapping:
  "load_loop \<lparr>layer_data = overlapping_segments, maximum_address = 731\<rparr> 0 0 [] =
     Inl (BadRange 100 511 288)"
proof -
  let ?bl = "\<lparr>layer_data = overlapping_segments, maximum_address = 731\<rparr>"
  have d: "layer_data ?bl =
      pack_chunks [(0, 255, 0, replicate 256 0)] @ pack_header MAGIC VERSION 100 511 0 @
      replicate 412 0"
    by (simp add: overlapping_segments_def)
  show ?thesis
    using load_loop_at_header[OF d] by (simp add: u64_def overlapping_segments_def)
qed

lemma check_header_overlapping:
  "check_header \<lparr>layer_data = overlapping_segments, maximum_address = 731\<rparr> 0 = Inr (0, 255)"
proof -
  let ?bl = "\<lparr>layer_data = overlapping_segments, maximum_address = 731\<rparr>"
  have d: "layer_data ?bl =
      [] @ pack_header MAGIC VERSION 0 255 0 @
      (replicate 256 0 @ pack_header MAGIC VERSION 100 511 0 @ replicate 412 0)"
    by (simp add: overlapping_segments_def)
  show ?thesis
    using check_header_packed[OF d] by (simp add: u64_def)
qed

section \<open>The claims\<close>

text \<open>
  In the theorems below a file is laid out as \<open>pack_chunks cs\<close>, possibly followed by one
  more header and further bytes. The base layer reports a \<open>maximum_address\<close> that is at
  least its last address (its number of bytes minus one); where the loop has to stop at
  the end of the file it is at most the number of bytes.
\<close>

subsection \<open>C1: a second segment that starts at the end of the first\<close>

text \<open>
  C1, as stated: whenever the start of a header equals the end of the segment before it,
  \<open>_load_segments\<close> fails with the bad start/end error. The file \<open>touching_segments\<close> has
  a header for \<open>[0, 255]\<close> and a header for \<open>[255, 511]\<close>; the loop accepts both and the
  method stores two segments, whether \<open>maximum_address\<close> is the last address or the size.
\<close>

theorem touching_segments_accepted:
  "load_segments (new_layer ''LimeLayer''
       \<lparr>layer_data = touching_segments, maximum_address = 576\<rparr>)
     = (Inr (), (new_layer ''LimeLayer''
                  \<lparr>layer_data = touching_segments, maximum_address = 576\<rparr>)
                \<lparr>self_segments := [(0, 32, 256), (255, 320, 257)]\<rparr>)
   \<and> load_segments (new_layer ''LimeLayer''
       \<lparr>layer_data = touching_segments, maximum_address = 577\<rparr>)
     = (Inr (), (new_layer ''LimeLayer''
                  \<lparr>layer_data = touching_segments, maximum_address = 577\<rparr>)
                \<lparr>self_segments := [(0, 32, 256), (255, 320, 257)]\<rparr>)"
  by (simp add: load_segments_def new_layer_def load_loop_touching)

text \<open>
  C1, amended: for a header that follows at least one accepted segment,
  \<open>_load_segments\<close> fails with the bad start/end error at that header exactly when its
  start is strictly less than the end of the segment before it, or its end is less than
  its start. A start equal to the previous end is not rejected.
\<close>

theorem bad_range_iff_start_below_previous_end:
  assumes "layer_data (self_base_layer self) =
             pack_chunks cs @ pack_header MAGIC VERSION s e r @ rest"
    and "cs \<noteq> []" and "accepted_chain 0 cs" and "u64 s" and "u64 e"
    and "int (length (layer_data (self_base_layer self))) - 1
           \<le> maximum_address (self_base_layer self)"
  shows "fst (load_segments self) = Inl (BadRange s e (int (length (pack_chunks cs))))
         \<longleftrightarrow> s < chunk_end (last cs) \<or> e < s"
proof -
  let ?bl = "self_base_layer self" and ?off = "int (length (pack_chunks cs))"
  note hd = load_loop_at_header[OF assms(1) assms(3) u32_MAGIC u32_VERSION assms(4,5,6),
      unfolded Let_def last_end_last[OF assms(2)]]
  show ?thesis
  proof
    assume bad: "s < chunk_end (last cs) \<or> e < s"
    then have "load_loop ?bl 0 0 [] = Inl (BadRange s e ?off)"
      using hd by simp
    then show "fst (load_segments self) = Inl (BadRange s e ?off)"
      by (simp add: load_segments_raise)
  next
    assume f: "fst (load_segments self) = Inl (BadRange s e ?off)"
    show "s < chunk_end (last cs) \<or> e < s"
    proof (rule ccontr)
      assume ok: "\<not> (s < chunk_end (last cs) \<or> e < s)"
      have "load_loop ?bl 0 0 [] = Inl (BadRange s e ?off)"
        by (rule load_segments_Inl_cases[OF f]) simp
      then have "load_loop ?bl e (?off + 32 + (e - s + 1))
                  (table_from 0 cs @ [(s, ?off + 32, e - s + 1)]) = Inl (BadRange s e ?off)"
        using hd ok by simp
      then have "?off + 32 + (e - s + 1) \<le> ?off"
        by (rule load_loop_BadRange_offset)
      then show False using ok by simp
    qed
  qed
qed

text \<open>
  The theorem at \<open>overlapping_segments\<close>: the second header starts at 100, below the end
  255 of the first segment.
\<close>

theorem bad_range_iff_start_below_previous_end_witness:
  "fst (load_segments (new_layer ''LimeLayer''
      \<lparr>layer_data = pack_chunks [(0, 255, 0, replicate 256 0)] @
                      pack_header MAGIC VERSION 100 511 0 @ replicate 412 0,
       maximum_address = 731\<rparr>)) = Inl (BadRange 100 511 288)"
  using bad_range_iff_start_below_previous_end[of "new_layer ''LimeLayer''
      \<lparr>layer_data = pack_chunks [(0, 255, 0, replicate 256 0)] @
                      pack_header MAGIC VERSION 100 511 0 @ replicate 412 0,
       maximum_address = 731\<rparr>" "[(0, 255, 0, replicate 256 0)]" 100 511 0 "replicate 412 0"]
  by (simp add: new_layer_def u64_def)

subsection \<open>C2: the table of a well-formed file\<close>

text \<open>
  C2, as stated: the segment of a header at file offset \<open>o\<close> has source offset \<open>o + 28\<close>,
  and a file of \<open>N\<close> segments yields \<open>N\<close> segments. For the file \<open>one_segment\<close> (one header
  at offset 0 for \<open>[0, 255]\<close>) the stored segment is \<open>(0, 32, 256)\<close>, not \<open>(0, 28, 256)\<close>:
  the header of \<open>'<IIQQQ'\<close> has 32 bytes. For the file of no segment the method raises
  instead of storing an empty table.
\<close>

theorem one_segment_offset_is_32:
  "self_segments (snd (load_segments (new_layer ''LimeLayer''
      \<lparr>layer_data = one_segment, maximum_address = 287\<rparr>))) = [(0, 32, 256)]
   \<and> self_segments (snd (load_segments (new_layer ''LimeLayer''
      \<lparr>layer_data = one_segment, maximum_address = 288\<rparr>))) = [(0, 32, 256)]
   \<and> [(0, 32, 256)] \<noteq> [(0 :: int, 0 + 28 :: int, 255 - 0 + 1 :: int)]
   \<and> fst (load_segments (new_layer ''LimeLayer''
      \<lparr>layer_data = pack_chunks [], maximum_address = 0\<rparr>)) = Inl EmptyContainer"
  by (simp add: load_segments_def new_layer_def load_loop_one_segment load_loop_exit)

text \<open>
  C2, amended: for every file that consists of \<open>N \<ge> 1\<close> well-formed, correctly chained
  segments (32-byte headers), \<open>_load_segments\<close> returns normally and stores exactly \<open>N\<close>
  segments in the order of the file, the \<open>i\<close>-th with the start of the \<open>i\<close>-th header, the
  file offset of that header plus 32, and \<open>end - start + 1\<close>.
\<close>

theorem load_segments_well_formed:
  assumes "layer_data (self_base_layer self) = pack_chunks cs"
    and "cs \<noteq> []" and "well_formed_chunks cs"
    and "int (length (layer_data (self_base_layer self))) - 1
           \<le> maximum_address (self_base_layer self)"
    and "maximum_address (self_base_layer self)
           \<le> int (length (layer_data (self_base_layer self)))"
  shows "load_segments self =
           (Inr (), self\<lparr>self_segments := map (expected_segment cs) [0..<length cs]\<rparr>)"
proof -
  have "load_loop (self_base_layer self) 0 0 [] = Inr (table_from 0 cs)"
    by (rule load_loop_all_chunks[OF assms(1) well_formed_accepted[OF assms(3)] assms(4,5)])
  moreover have "table_from 0 cs \<noteq> []"
    using assms(2) by (cases cs) auto
  ultimately show ?thesis
    by (simp add: load_segments_table table_from_expected)
qed

text \<open>The theorem at a file of two segments, \<open>[0, 255]\<close> and \<open>[4096, 4099]\<close>.\<close>

theorem load_segments_well_formed_witness:
  "load_segments (new_layer ''LimeLayer''
      \<lparr>layer_data = pack_chunks [(0, 255, 0, replicate 256 0), (4096, 4099, 0, [1, 2, 3, 4])],
       maximum_address = 323\<rparr>)
   = (Inr (), (new_layer ''LimeLayer''
      \<lparr>layer_data = pack_chunks [(0, 255, 0, replicate 256 0), (4096, 4099, 0, [1, 2, 3, 4])],
       maximum_address = 323\<rparr>)\<lparr>self_segments := [(0, 32, 256), (4096, 320, 4)]\<rparr>)"
  using load_segments_well_formed[of "new_layer ''LimeLayer''
      \<lparr>layer_data = pack_chunks [(0, 255, 0, replicate 256 0), (4096, 4099, 0, [1, 2, 3, 4])],
       maximum_address = 323\<rparr>" "[(0, 255, 0, replicate 256 0), (4096, 4099, 0, [1, 2, 3, 4])]"]
  by (simp add: new_layer_def well_formed_chunks_def u64_def expected_segment_def
        header_offset_def upt_conv_Cons)

subsection \<open>C3: what the stacker returns and what it lets through\<close>

text \<open>
  C3: \<open>LimeStacker.stack\<close> returns \<open>None\<close> exactly when the check of the header at
  offset 0 raises (the read fails, the magic is bad, or the version is wrong). When that
  check passes and \<open>_load_segments\<close>, run by the constructor, raises, the exception
  leaves \<open>stack\<close>: it is not turned into \<open>None\<close>.
\<close>

theorem stack_None_iff_probe_fails:
  "(stack bl nm = Inr None \<longleftrightarrow> (\<exists>e. check_header bl 0 = Inl e))
   \<and> (\<forall>e. check_header bl 0 = Inl e \<longrightarrow>
         e = HeaderReadFailed 0 \<or> (\<exists>magic. e = BadMagic magic 0)
         \<or> (\<exists>version. e = UnsupportedVersion version 0))
   \<and> (\<forall>h e. check_header bl 0 = Inr h \<longrightarrow>
         fst (load_segments (new_layer nm bl)) = Inl e \<longrightarrow> stack bl nm = Inl e)"
proof (intro conjI allI impI)
  show "stack bl nm = Inr None \<longleftrightarrow> (\<exists>e. check_header bl 0 = Inl e)"
    by (auto simp: stack_def LimeLayer_init_def dest: check_header_exn
        split: sum.splits prod.splits)
next
  fix e
  assume "check_header bl 0 = Inl e"
  then show "e = HeaderReadFailed 0 \<or> (\<exists>magic. e = BadMagic magic 0)
      \<or> (\<exists>version. e = UnsupportedVersion version 0)"
    by (cases "32 \<le> length (layer_data bl)")
       (auto simp: check_header_0 check_header_0_short split: if_splits)
next
  fix h e
  assume "check_header bl 0 = Inr h"
    and "fst (load_segments (new_layer nm bl)) = Inl e"
  then show "stack bl nm = Inl e"
    by (auto simp: stack_def LimeLayer_init_def split: sum.splits prod.splits)
qed

text \<open>
  The theorem at \<open>overlapping_segments\<close>, whose first header passes the check and whose
  second header is rejected by the loop, and at the empty file.
\<close>

theorem stack_None_iff_probe_fails_witness:
  "stack \<lparr>layer_data = overlapping_segments, maximum_address = 731\<rparr> ''LimeLayer''
     = Inl (BadRange 100 511 288)
   \<and> stack \<lparr>layer_data = [], maximum_address = - 1\<rparr> ''LimeLayer'' = Inr None"
proof -
  let ?bl = "\<lparr>layer_data = overlapping_segments, maximum_address = 731\<rparr>"
  let ?empty = "\<lparr>layer_data = [], maximum_address = - 1\<rparr>"
  have f: "fst (load_segments (new_layer ''LimeLayer'' ?bl)) = Inl (BadRange 100 511 288)"
    by (simp add: load_segments_raise new_layer_def load_loop_overlapping)
  have r: "check_header ?empty 0 = Inl (HeaderReadFailed 0)"
    by (simp add: check_header_0_short)
  show ?thesis
    using stack_None_iff_probe_fails[of ?bl "''LimeLayer''"]
      stack_None_iff_probe_fails[of ?empty "''LimeLayer''"] check_header_overlapping f r
    by simp
qed

subsection \<open>C4: an end below the start\<close>

text \<open>
  C4: for every header whose end is strictly less than its start, \<open>_load_segments\<close>
  fails with the bad start/end error at that header, whatever the relation of its start
  to the segment before it. The header is any header the loop reaches: the chunks before
  it, if any, were accepted.
\<close>

theorem inverted_range_rejected:
  assumes "layer_data (self_base_layer self) =
             pack_chunks cs @ pack_header MAGIC VERSION s e r @ rest"
    and "accepted_chain 0 cs" and "u64 s" and "u64 e"
    and "int (length (layer_data (self_base_layer self))) - 1
           \<le> maximum_address (self_base_layer self)"
    and "e < s"
  shows "fst (load_segments self) = Inl (BadRange s e (int (length (pack_chunks cs))))"
proof -
  have "load_loop (self_base_layer self) 0 0 [] =
          Inl (BadRange s e (int (length (pack_chunks cs))))"
    using load_loop_at_header[OF assms(1,2) u32_MAGIC u32_VERSION assms(3,4,5)] assms(6)
    by (simp add: Let_def)
  then show ?thesis by (simp add: load_segments_raise)
qed

text \<open>
  The theorem at a second header \<open>[4096, 4000]\<close>, whose start is above the first segment,
  and at a first header \<open>[5, 3]\<close>.
\<close>

theorem inverted_range_rejected_witness:
  "fst (load_segments (new_layer ''LimeLayer''
      \<lparr>layer_data = pack_chunks [(0, 255, 0, replicate 256 0)] @
                      pack_header MAGIC VERSION 4096 4000 0 @ [],
       maximum_address = 319\<rparr>)) = Inl (BadRange 4096 4000 288)
   \<and> fst (load_segments (new_layer ''LimeLayer''
      \<lparr>layer_data = pack_chunks [] @ pack_header MAGIC VERSION 5 3 0 @ replicate 8 0,
       maximum_address = 39\<rparr>)) = Inl (BadRange 5 3 0)"
  using inverted_range_rejected[of "new_layer ''LimeLayer''
      \<lparr>layer_data = pack_chunks [(0, 255, 0, replicate 256 0)] @
                      pack_header MAGIC VERSION 4096 4000 0 @ [],
       maximum_address = 319\<rparr>" "[(0, 255, 0, replicate 256 0)]" 4096 4000 0 "[]"]
    inverted_range_rejected[of "new_layer ''LimeLayer''
      \<lparr>layer_data = pack_chunks [] @ pack_header MAGIC VERSION 5 3 0 @ replicate 8 0,
       maximum_address = 39\<rparr>" "[]" 5 3 0 "replicate 8 0"]
  by (simp add: new_layer_def u64_def)

subsection \<open>C5: a bad magic\<close>

text \<open>
  C5, as stated: every source whose first four bytes are not the magic makes
  \<open>_load_segments\<close> fail with the bad magic error. A source of only four bytes, here the
  four bytes \<open>7F 45 4C 46\<close>, has no complete header: the read of the header fails first,
  and the method fails with the read failure.
\<close>

theorem short_bad_magic_read_failure:
  "le_int (take 4 [0x7F, 0x45, 0x4C, 0x46]) \<noteq> MAGIC
   \<and> fst (load_segments (new_layer ''LimeLayer''
        \<lparr>layer_data = [0x7F, 0x45, 0x4C, 0x46], maximum_address = 3\<rparr>))
       = Inl (HeaderReadFailed 0)
   \<and> fst (load_segments (new_layer ''LimeLayer''
        \<lparr>layer_data = [0x7F, 0x45, 0x4C, 0x46], maximum_address = 4\<rparr>))
       = Inl (HeaderReadFailed 0)"
  by (simp add: MAGIC_def load_segments_def new_layer_def load_loop_raise check_header_0_short)

text \<open>
  C5, amended: for every source whose first four bytes, read as a little-endian unsigned
  integer, differ from the magic, \<open>stack\<close> returns \<open>None\<close> and raises nothing; and when
  the source holds at least one complete header (32 bytes), \<open>_load_segments\<close> fails with
  the bad magic error, which reports the value found, at offset 0.
\<close>

theorem bad_magic_rejected:
  assumes "le_int (take 4 (layer_data (self_base_layer self))) \<noteq> MAGIC"
  shows "stack (self_base_layer self) nm = Inr None
       \<and> (32 \<le> length (layer_data (self_base_layer self)) \<longrightarrow>
          int (length (layer_data (self_base_layer self))) - 1
            \<le> maximum_address (self_base_layer self) \<longrightarrow>
          fst (load_segments self) =
            Inl (BadMagic (le_int (take 4 (layer_data (self_base_layer self)))) 0))"
proof (intro conjI impI)
  let ?bl = "self_base_layer self"
  show "stack ?bl nm = Inr None"
  proof (cases "32 \<le> length (layer_data ?bl)")
    case True
    then show ?thesis using assms by (simp add: stack_rejects check_header_0)
  next
    case False
    then show ?thesis by (simp add: stack_rejects check_header_0_short)
  qed
next
  let ?bl = "self_base_layer self"
  assume len: "32 \<le> length (layer_data ?bl)"
    and m: "int (length (layer_data ?bl)) - 1 \<le> maximum_address ?bl"
  have "check_header ?bl 0 = Inl (BadMagic (le_int (take 4 (layer_data ?bl))) 0)"
    using len assms by (simp add: check_header_0)
  moreover have "0 < maximum_address ?bl"
    using len m by simp
  ultimately show "fst (load_segments self) =
      Inl (BadMagic (le_int (take 4 (layer_data ?bl))) 0)"
    by (simp add: load_loop_raise load_segments_raise)
qed

text \<open>The theorem at a header whose magic is \<open>0x41414141\<close>, followed by 256 bytes.\<close>

theorem bad_magic_rejected_witness:
  "stack \<lparr>layer_data = pack_header 0x41414141 VERSION 0 255 0 @ replicate 256 0,
          maximum_address = 287\<rparr> ''LimeLayer'' = Inr None
   \<and> fst (load_segments (new_layer ''LimeLayer''
        \<lparr>layer_data = pack_header 0x41414141 VERSION 0 255 0 @ replicate 256 0,
         maximum_address = 287\<rparr>)) = Inl (BadMagic 0x41414141 0)"
proof -
  have m: "le_int (take 4 (pack_header 0x41414141 VERSION 0 255 0)) = 0x41414141"
    by (simp add: pack_header_fields u32_def u64_def VERSION_def)
  show ?thesis
    using bad_magic_rejected[of "new_layer ''LimeLayer''
        \<lparr>layer_data = pack_header 0x41414141 VERSION 0 255 0 @ replicate 256 0,
         maximum_address = 287\<rparr>" "''LimeLayer''"]
    by (simp add: new_layer_def m MAGIC_def)
qed

subsection \<open>C6: a source shorter than one header\<close>

text \<open>
  C6, as stated: a source of length 0 makes \<open>_load_segments\<close> fail with the read
  failure. For the empty source the loop is never entered, whether \<open>maximum_address\<close> is
  \<open>-1\<close> or \<open>0\<close>, and the method fails because no segment was defined.
\<close>

theorem empty_source_empty_container:
  "fst (load_segments (new_layer ''LimeLayer'' \<lparr>layer_data = [], maximum_address = - 1\<rparr>))
     = Inl EmptyContainer
   \<and> fst (load_segments (new_layer ''LimeLayer'' \<lparr>layer_data = [], maximum_address = 0\<rparr>))
     = Inl EmptyContainer"
  by (simp add: load_segments_def new_layer_def load_loop_exit)

text \<open>
  C6, amended: for every source shorter than one header (32 bytes, so every source of
  fewer than 28 bytes too), \<open>stack\<close> returns \<open>None\<close>; \<open>_load_segments\<close> fails with the
  read failure at offset 0 when \<open>maximum_address\<close> is positive, and otherwise (as for the
  empty source) with the error that no segment is defined.
\<close>

theorem short_source_rejected:
  assumes "length (layer_data (self_base_layer self)) < 32"
  shows "stack (self_base_layer self) nm = Inr None
       \<and> fst (load_segments self) =
           (if 0 < maximum_address (self_base_layer self) then Inl (HeaderReadFailed 0)
            else Inl EmptyContainer)"
proof -
  have h: "check_header (self_base_layer self) 0 = Inl (HeaderReadFailed 0)"
    using assms by (rule check_header_0_short)
  show ?thesis
  proof (cases "0 < maximum_address (self_base_layer self)")
    case True
    then show ?thesis using h
      by (simp add: stack_rejects load_loop_raise load_segments_raise)
  next
    case False
    then show ?thesis using h
      by (simp add: stack_rejects load_loop_exit load_segments_empty)
  qed
qed

text \<open>The theorem at a source of 27 bytes.\<close>

theorem short_source_rejected_witness:
  "stack \<lparr>layer_data = replicate 27 0, maximum_address = 26\<rparr> ''LimeLayer'' = Inr None
   \<and> fst (load_segments (new_layer ''LimeLayer''
        \<lparr>layer_data = replicate 27 0, maximum_address = 26\<rparr>)) = Inl (HeaderReadFailed 0)"
  using short_source_rejected[of "new_layer ''LimeLayer''
        \<lparr>layer_data = replicate 27 0, maximum_address = 26\<rparr>" "''LimeLayer''"]
  by (simp add: new_layer_def)

subsection \<open>C7: a failure stores nothing\<close>

text \<open>
  C7: whenever \<open>_load_segments\<close> raises, it leaves the object as it found it; in
  particular \<open>self._segments\<close> keeps its value. The attribute is assigned only after the
  loop has ended and found at least one segment.
\<close>

theorem load_segments_failure_keeps_object:
  "fst (load_segments self) = Inl e \<Longrightarrow> snd (load_segments self) = self"
  by (auto simp: load_segments_def split: sum.splits if_splits)

text \<open>
  The theorem at an object that holds a segment already and whose base layer is
  \<open>overlapping_segments\<close>: the first header is accepted, the second is rejected, and the
  object is unchanged.
\<close>

theorem load_segments_failure_keeps_object_witness:
  "fst (load_segments \<lparr>layer_name = ''LimeLayer'',
          self_base_layer = \<lparr>layer_data = overlapping_segments, maximum_address = 731\<rparr>,
          self_segments = [(4096, 32, 16)]\<rparr>) = Inl (BadRange 100 511 288)
   \<and> snd (load_segments \<lparr>layer_name = ''LimeLayer'',
          self_base_layer = \<lparr>layer_data = overlapping_segments, maximum_address = 731\<rparr>,
          self_segments = [(4096, 32, 16)]\<rparr>)
     = \<lparr>layer_name = ''LimeLayer'',
          self_base_layer = \<lparr>layer_data = overlapping_segments, maximum_address = 731\<rparr>,
          self_segments = [(4096, 32, 16)]\<rparr>"
proof -
  let ?self = "\<lparr>layer_name = ''LimeLayer'',
      self_base_layer = \<lparr>layer_data = overlapping_segments, maximum_address = 731\<rparr>,
      self_segments = [(4096, 32, 16)]\<rparr>"
  have f: "fst (load_segments ?self) = Inl (BadRange 100 511 288)"
    by (simp add: load_segments_raise load_loop_overlapping)
  from f load_segments_failure_keeps_object[OF f] show ?thesis by simp
qed

subsection \<open>C8: no empty table\<close>

text \<open>
  C8: when the loop ends with no segment collected, \<open>_load_segments\<close> fails with the
  error that no segment is defined; and whenever \<open>_load_segments\<close> returns normally, the
  table it has stored holds at least one segment.
\<close>

theorem load_segments_never_empty:
  "(load_loop (self_base_layer self) 0 0 [] = Inr [] \<longrightarrow>
      fst (load_segments self) = Inl EmptyContainer)
   \<and> (fst (load_segments self) = Inr () \<longrightarrow> self_segments (snd (load_segments self)) \<noteq> [])"
  by (auto simp: load_segments_def split: sum.splits if_splits)

text \<open>The theorem at the empty source and at \<open>one_segment\<close>.\<close>

theorem load_segments_never_empty_witness:
  "fst (load_segments (new_layer ''LimeLayer'' \<lparr>layer_data = [], maximum_address = - 1\<rparr>))
     = Inl EmptyContainer
   \<and> fst (load_segments (new_layer ''LimeLayer''
        \<lparr>layer_data = one_segment, maximum_address = 287\<rparr>)) = Inr ()
   \<and> self_segments (snd (load_segments (new_layer ''LimeLayer''
        \<lparr>layer_data = one_segment, maximum_address = 287\<rparr>))) \<noteq> []"
proof -
  let ?e = "new_layer ''LimeLayer'' \<lparr>layer_data = [], maximum_address = - 1\<rparr>"
  let ?s = "new_layer ''LimeLayer'' \<lparr>layer_data = one_segment, maximum_address = 287\<rparr>"
  have e: "load_loop (self_base_layer ?e) 0 0 [] = Inr []"
    by (simp add: new_layer_def load_loop_exit)
  have s: "fst (load_segments ?s) = Inr ()"
    by (simp add: load_segments_def new_layer_def load_loop_one_segment)
  from load_segments_never_empty[of ?e] load_segments_never_empty[of ?s] e s
  show ?thesis by simp
qed

subsection \<open>C9: a wrong version\<close>

text \<open>
  C9: for every source whose first header has the magic of the format and a version
  other than 1, \<open>_load_segments\<close> fails with the unexpected version error, which reports
  the version found, at offset 0.
\<close>

theorem unsupported_version_rejected:
  assumes "32 \<le> length (layer_data (self_base_layer self))"
    and "le_int (take 4 (layer_data (self_base_layer self))) = MAGIC"
    and "le_int (take 4 (drop 4 (layer_data (self_base_layer self)))) \<noteq> VERSION"
    and "int (length (layer_data (self_base_layer self))) - 1
           \<le> maximum_address (self_base_layer self)"
  shows "fst (load_segments self) =
           Inl (UnsupportedVersion
                  (le_int (take 4 (drop 4 (layer_data (self_base_layer self))))) 0)"
proof -
  let ?bl = "self_base_layer self"
  have "check_header ?bl 0 =
      Inl (UnsupportedVersion (le_int (take 4 (drop 4 (layer_data ?bl)))) 0)"
    using assms(1-3) by (simp add: check_header_0)
  moreover have "0 < maximum_address ?bl"
    using assms(1,4) by simp
  ultimately show ?thesis
    by (simp add: load_loop_raise load_segments_raise)
qed

text \<open>The theorem at a header of version 2, followed by 256 bytes.\<close>

theorem unsupported_version_rejected_witness:
  "fst (load_segments (new_layer ''LimeLayer''
      \<lparr>layer_data = pack_header MAGIC 2 0 255 0 @ replicate 256 0, maximum_address = 287\<rparr>))
     = Inl (UnsupportedVersion 2 0)"
proof -
  have f: "le_int (take 4 (pack_header MAGIC 2 0 255 0)) = MAGIC"
    "le_int (take 4 (drop 4 (pack_header MAGIC 2 0 255 0))) = 2"
    by (simp_all add: pack_header_fields u32_def u64_def MAGIC_def)
  show ?thesis
    using unsupported_version_rejected[of "new_layer ''LimeLayer''
      \<lparr>layer_data = pack_header MAGIC 2 0 255 0 @ replicate 256 0, maximum_address = 287\<rparr>"]
    by (simp add: new_layer_def f VERSION_def)
qed

subsection \<open>C10: the check of one header looks at magic and version only\<close>

text \<open>
  C10, as stated: a prefix of 28 bytes with the right magic and version is accepted. The
  first 28 bytes of a valid header, taken as the whole source, have the right magic and
  version, and \<open>_check_header\<close> fails: it reads 32 bytes.
\<close>

theorem check_header_28_bytes_fails:
  "length (take 28 (pack_header MAGIC VERSION 0 255 0)) = 28
   \<and> le_int (take 4 (take 28 (pack_header MAGIC VERSION 0 255 0))) = MAGIC
   \<and> le_int (take 4 (drop 4 (take 28 (pack_header MAGIC VERSION 0 255 0)))) = VERSION
   \<and> check_header \<lparr>layer_data = take 28 (pack_header MAGIC VERSION 0 255 0),
                    maximum_address = 27\<rparr> 0 = Inl (HeaderReadFailed 0)"
  by (simp add: pack_header_fields u64_def check_header_0_short drop_take)

text \<open>
  C10, amended: for every source of at least 32 bytes whose first header has the right
  magic and version, \<open>_check_header\<close> at offset 0 returns the start and end fields as
  they are in the header, with no check on them, also when the end is below the start.
\<close>

theorem check_header_ignores_range:
  assumes "32 \<le> length (layer_data bl)"
    and "le_int (take 4 (layer_data bl)) = MAGIC"
    and "le_int (take 4 (drop 4 (layer_data bl))) = VERSION"
  shows "check_header bl 0 =
           Inr (le_int (take 8 (drop 8 (layer_data bl))),
                le_int (take 8 (drop 16 (layer_data bl))))"
  using assms by (simp add: check_header_0)

text \<open>The theorem at a header with start 5 and end 3.\<close>

theorem check_header_ignores_range_witness:
  "check_header \<lparr>layer_data = pack_header MAGIC VERSION 5 3 0, maximum_address = 31\<rparr> 0
     = Inr (5, 3)"
  using check_header_ignores_range[of
      "\<lparr>layer_data = pack_header MAGIC VERSION 5 3 0, maximum_address = 31\<rparr>"]
  by (simp add: pack_header_fields u64_def)

end
